theory Spec2Isabelle
  imports Complex_Main "HOL-Library.Sublist" "HOL-Library.AList"
begin

section \<open>Common data\<close>

text \<open>
  Python numbers of the geometry code are modelled as reals: the arithmetic of the source is
  written out as it stands and every place where Python raises is a branch that returns an
  error value.
\<close>

datatype error =
    ZeroDivisionError
  | NameError string
  | KeyError string
  | TypeError
  | ValueError
  | AttributeError string
  | IndexError
  | AssertionError
  | NotImplementedError

type_synonym point = "real \<times> real"

text \<open>A rectangle is the tuple \<open>(origin, size)\<close>; \<open>rect[i][j]\<close> of the source is
  component \<open>j\<close> of component \<open>i\<close>.\<close>

type_synonym rect = "point \<times> point"

section \<open>Graphics.py\<close>

subsection \<open>Module functions\<close>

text \<open>\<open>fit_to_aspect_ratio\<close>: the division \<open>rect[1][1] / float(aspect_ratio)\<close> of the second
  branch raises when the ratio is zero.\<close>

definition fit_to_aspect_ratio :: "rect \<Rightarrow> real \<Rightarrow> error + rect" where
  "fit_to_aspect_ratio rect aspect_ratio =
     (if snd (snd rect) > aspect_ratio * fst (snd rect) then
        (let new_size = (fst (snd rect), fst (snd rect) * aspect_ratio);
             new_origin = (fst (fst rect), snd (fst rect) + 0.5 * (snd (snd rect) - snd new_size))
         in Inr (new_origin, new_size))
      else if aspect_ratio = 0 then Inl ZeroDivisionError
      else
        (let new_size = (snd (snd rect) / aspect_ratio, snd (snd rect));
             new_origin = (fst (fst rect) + 0.5 * (fst (snd rect) - fst new_size), snd (fst rect))
         in Inr (new_origin, new_size)))"

subsection \<open>Graphic: shared hit-test helpers\<close>

definition test_point :: "point \<Rightarrow> point \<Rightarrow> real \<Rightarrow> bool" where
  "test_point p1 p2 radius \<longleftrightarrow>
     sqrt ((fst p1 - fst p2)\<^sup>2 + (snd p1 - snd p2)\<^sup>2) < radius"

text \<open>\<open>get_closest_point_on_line\<close> normalises the direction vector by its length; the two
  divisions \<open>v[0] / length\<close> and \<open>v[1] / length\<close> raise when the length is zero.\<close>

definition get_closest_point_on_line :: "point \<Rightarrow> point \<Rightarrow> point \<Rightarrow> error + point" where
  "get_closest_point_on_line start end p =
     (let c = (fst p - fst start, snd p - snd start);
          v = (fst end - fst start, snd end - snd start);
          length = sqrt ((fst v)\<^sup>2 + (snd v)\<^sup>2)
      in if length = 0 then Inl ZeroDivisionError
         else
           (let v = (fst v / length, snd v / length);
                t = fst v * fst c + snd v * snd c
            in if t < 0 then Inr start
               else if t > length then Inr end
               else Inr (fst start + fst v * t, snd start + snd v * t)))"

definition test_line :: "point \<Rightarrow> point \<Rightarrow> point \<Rightarrow> real \<Rightarrow> error + bool" where
  "test_line start end p radius =
     (case get_closest_point_on_line start end p of
        Inl e \<Rightarrow> Inl e
      | Inr cp \<Rightarrow> Inr (sqrt ((fst p - fst cp)\<^sup>2 + (snd p - snd cp)\<^sup>2) < radius))"

definition test_inside_bounds :: "rect \<Rightarrow> point \<Rightarrow> real \<Rightarrow> bool" where
  "test_inside_bounds bounds p radius \<longleftrightarrow>
     fst p > fst (fst bounds) \<and> fst p \<le> fst (fst bounds) + fst (snd bounds) \<and>
     snd p > snd (fst bounds) \<and> snd p \<le> snd (fst bounds) + snd (snd bounds)"

text \<open>The coordinate mapping is an object of the caller; the hit tests use two of its
  methods, taken here as functions.\<close>

record mapping =
  map_point_image_norm_to_widget :: "point \<Rightarrow> point"
  map_size_image_norm_to_widget :: "point \<Rightarrow> point"

subsection \<open>RectangleGraphic\<close>

record RectangleGraphic =
  rg_bounds :: rect

definition RectangleGraphic_init :: RectangleGraphic where
  "RectangleGraphic_init = \<lparr>rg_bounds = ((0, 0), (1, 1))\<rparr>"

definition RectangleGraphic_set_bounds :: "RectangleGraphic \<Rightarrow> rect \<Rightarrow> RectangleGraphic" where
  "RectangleGraphic_set_bounds self bounds =
     (let bounds =
            (if fst (snd bounds) < 0
             then ((fst (fst bounds) + fst (snd bounds), snd (fst bounds)),
                   (- fst (snd bounds), snd (snd bounds)))
             else bounds);
          bounds =
            (if snd (snd bounds) < 0
             then ((fst (fst bounds), snd (fst bounds) + snd (snd bounds)),
                   (fst (snd bounds), - snd (snd bounds)))
             else bounds)
      in self\<lparr>rg_bounds := bounds\<rparr>)"

definition RectangleGraphic_test ::
  "RectangleGraphic \<Rightarrow> mapping \<Rightarrow> point \<Rightarrow> bool \<Rightarrow> error + string option" where
  "RectangleGraphic_test self m tp move_only =
     (let origin = map_point_image_norm_to_widget m (fst (rg_bounds self));
          size = map_size_image_norm_to_widget m (snd (rg_bounds self))
      in if \<not> move_only \<and> test_point origin tp 4 then Inr (Some ''top-left'')
         else if \<not> move_only \<and> test_point (fst origin, snd origin + snd size) tp 4
           then Inr (Some ''top-right'')
         else if \<not> move_only \<and> test_point (fst origin + fst size, snd origin + snd size) tp 4
           then Inr (Some ''bottom-right'')
         else if \<not> move_only \<and> test_point (fst origin + fst size, snd origin) tp 4
           then Inr (Some ''bottom-left'')
         else if test_inside_bounds (origin, size) tp 4 then Inr (Some ''all'')
         else Inr None)"

subsection \<open>EllipseGraphic\<close>

record EllipseGraphic =
  eg_bounds :: rect

definition EllipseGraphic_init :: EllipseGraphic where
  "EllipseGraphic_init = \<lparr>eg_bounds = ((0, 0), (1, 1))\<rparr>"

definition EllipseGraphic_set_bounds :: "EllipseGraphic \<Rightarrow> rect \<Rightarrow> EllipseGraphic" where
  "EllipseGraphic_set_bounds self bounds =
     (let bounds =
            (if fst (snd bounds) < 0
             then ((fst (fst bounds) + fst (snd bounds), snd (fst bounds)),
                   (- fst (snd bounds), snd (snd bounds)))
             else bounds);
          bounds =
            (if snd (snd bounds) < 0
             then ((fst (fst bounds), snd (fst bounds) + snd (snd bounds)),
                   (fst (snd bounds), - snd (snd bounds)))
             else bounds)
      in self\<lparr>eg_bounds := bounds\<rparr>)"

definition EllipseGraphic_test ::
  "EllipseGraphic \<Rightarrow> mapping \<Rightarrow> point \<Rightarrow> bool \<Rightarrow> error + string option" where
  "EllipseGraphic_test self m tp move_only =
     (let origin = map_point_image_norm_to_widget m (fst (eg_bounds self));
          size = map_size_image_norm_to_widget m (snd (eg_bounds self))
      in if \<not> move_only \<and> test_point origin tp 4 then Inr (Some ''top-left'')
         else if \<not> move_only \<and> test_point (fst origin, snd origin + snd size) tp 4
           then Inr (Some ''top-right'')
         else if \<not> move_only \<and> test_point (fst origin + fst size, snd origin + snd size) tp 4
           then Inr (Some ''bottom-right'')
         else if \<not> move_only \<and> test_point (fst origin + fst size, snd origin) tp 4
           then Inr (Some ''bottom-left'')
         else if test_inside_bounds (origin, size) tp 4 then Inr (Some ''all'')
         else Inr None)"

subsection \<open>LineGraphic\<close>

record LineGraphic =
  lg_start :: point
  lg_end :: point

definition LineGraphic_init :: LineGraphic where
  "LineGraphic_init = \<lparr>lg_start = (0, 0), lg_end = (1, 1)\<rparr>"

definition LineGraphic_set_start :: "LineGraphic \<Rightarrow> point \<Rightarrow> LineGraphic" where
  "LineGraphic_set_start self start = self\<lparr>lg_start := start\<rparr>"

definition LineGraphic_set_end :: "LineGraphic \<Rightarrow> point \<Rightarrow> LineGraphic" where
  "LineGraphic_set_end self end = self\<lparr>lg_end := end\<rparr>"

definition LineGraphic_test ::
  "LineGraphic \<Rightarrow> mapping \<Rightarrow> point \<Rightarrow> bool \<Rightarrow> error + string option" where
  "LineGraphic_test self m tp move_only =
     (let p1 = map_point_image_norm_to_widget m (lg_start self);
          p2 = map_point_image_norm_to_widget m (lg_end self)
      in if \<not> move_only \<and> test_point p1 tp 4 then Inr (Some ''start'')
         else if \<not> move_only \<and> test_point p2 tp 4 then Inr (Some ''end'')
         else (case test_line p1 p2 tp 4 of
                 Inl e \<Rightarrow> Inl e
               | Inr hit \<Rightarrow> if hit then Inr (Some ''all'') else Inr None))"

text \<open>The edges of the region a rectangle tuple describes: the least and greatest
  coordinate along each axis, whatever the signs of the size.\<close>

definition edges :: "rect \<Rightarrow> (real \<times> real) \<times> (real \<times> real)" where
  "edges r =
     ((min (fst (fst r)) (fst (fst r) + fst (snd r)), max (fst (fst r)) (fst (fst r) + fst (snd r))),
      (min (snd (fst r)) (snd (fst r) + snd (snd r)), max (snd (fst r)) (snd (fst r) + snd (snd r))))"

text \<open>The mapping that leaves every point where it is.\<close>

definition identity_mapping :: mapping where
  "identity_mapping =
     \<lparr>map_point_image_norm_to_widget = (\<lambda>p. p), map_size_image_norm_to_widget = (\<lambda>p. p)\<rparr>"

section \<open>Python values\<close>

text \<open>
  The values the persistence layer and the specifier dictionaries hold. Floats are modelled
  as reals; a dictionary is an association list in insertion order; \<open>PyObject\<close> stands for
  any other object (a bound method, for instance), named for reference only.
\<close>

datatype py_value =
    PyNone
  | PyBool bool
  | PyInt int
  | PyFloat real
  | PyComplex complex
  | PyStr string
  | PyTuple "py_value list"
  | PyList "py_value list"
  | PyDict "(string \<times> py_value) list"
  | PyObject string

type_synonym py_dict = "(string \<times> py_value) list"

text \<open>\<open>d.get(k)\<close>, \<open>d[k] = v\<close> and \<open>del d[k]\<close>; the last raises on a missing key.\<close>

definition dict_get :: "py_dict \<Rightarrow> string \<Rightarrow> py_value" where
  "dict_get d k = (case map_of d k of None \<Rightarrow> PyNone | Some v \<Rightarrow> v)"

definition dict_set :: "string \<Rightarrow> py_value \<Rightarrow> py_dict \<Rightarrow> py_dict" where
  "dict_set k v d = AList.update k v d"

definition dict_del :: "string \<Rightarrow> py_dict \<Rightarrow> error + py_dict" where
  "dict_del k d = (if k \<in> fst ` set d then Inr (AList.delete k d) else Inl (KeyError k))"

text \<open>Truth value testing, as \<open>bool(x)\<close>, \<open>if x\<close> and \<open>x or y\<close> apply it.\<close>

fun py_truth :: "py_value \<Rightarrow> bool" where
  "py_truth PyNone = False"
| "py_truth (PyBool b) = b"
| "py_truth (PyInt i) = (i \<noteq> 0)"
| "py_truth (PyFloat r) = (r \<noteq> 0)"
| "py_truth (PyComplex c) = (c \<noteq> 0)"
| "py_truth (PyStr s) = (s \<noteq> [])"
| "py_truth (PyTuple xs) = (xs \<noteq> [])"
| "py_truth (PyList xs) = (xs \<noteq> [])"
| "py_truth (PyDict d) = (d \<noteq> [])"
| "py_truth (PyObject n) = True"

text \<open>
  The conversions of the interpreter that read text (\<open>int("12")\<close>, \<open>float("1.5")\<close>,
  \<open>complex("1+2j")\<close>) and \<open>str\<close> of a value that is not a string are not part of the
  repository; they are parameters. A parser returns \<open>None\<close> where the interpreter raises
  \<open>ValueError\<close>.
\<close>

record builtins =
  int_of_str :: "string \<Rightarrow> int option"
  float_of_str :: "string \<Rightarrow> real option"
  complex_of_str :: "string \<Rightarrow> complex option"
  str_of :: "py_value \<Rightarrow> string"

fun py_int :: "builtins \<Rightarrow> py_value \<Rightarrow> error + int" where
  "py_int B (PyBool b) = Inr (if b then 1 else 0)"
| "py_int B (PyInt i) = Inr i"
| "py_int B (PyFloat r) = Inr (if 0 \<le> r then \<lfloor>r\<rfloor> else \<lceil>r\<rceil>)"
| "py_int B (PyStr s) = (case int_of_str B s of None \<Rightarrow> Inl ValueError | Some i \<Rightarrow> Inr i)"
| "py_int B v = Inl TypeError"

fun py_float :: "builtins \<Rightarrow> py_value \<Rightarrow> error + real" where
  "py_float B (PyBool b) = Inr (if b then 1 else 0)"
| "py_float B (PyInt i) = Inr (of_int i)"
| "py_float B (PyFloat r) = Inr r"
| "py_float B (PyStr s) = (case float_of_str B s of None \<Rightarrow> Inl ValueError | Some r \<Rightarrow> Inr r)"
| "py_float B v = Inl TypeError"

text \<open>A number as a complex number; \<open>None\<close> for a value that is not a number.\<close>

fun py_number :: "py_value \<Rightarrow> complex option" where
  "py_number (PyBool b) = Some (if b then 1 else 0)"
| "py_number (PyInt i) = Some (of_int i)"
| "py_number (PyFloat r) = Some (complex_of_real r)"
| "py_number (PyComplex c) = Some c"
| "py_number v = None"

text \<open>\<open>complex(*args)\<close>: no argument gives zero, one argument is a number or a text to
  read, two arguments are numbers \<open>a\<close> and \<open>b\<close> and give \<open>a + b*1j\<close>.\<close>

fun py_complex :: "builtins \<Rightarrow> py_value list \<Rightarrow> error + complex" where
  "py_complex B [] = Inr 0"
| "py_complex B [PyStr s] =
     (case complex_of_str B s of None \<Rightarrow> Inl ValueError | Some c \<Rightarrow> Inr c)"
| "py_complex B [a] = (case py_number a of None \<Rightarrow> Inl TypeError | Some c \<Rightarrow> Inr c)"
| "py_complex B [a, b] =
     (case (py_number a, py_number b) of
        (Some x, Some y) \<Rightarrow> Inr (x + y * \<i>)
      | _ \<Rightarrow> Inl TypeError)"
| "py_complex B args = Inl TypeError"

fun py_str :: "builtins \<Rightarrow> py_value \<Rightarrow> string" where
  "py_str B (PyStr s) = s"
| "py_str B v = str_of B v"

text \<open>The items of \<open>*raw_value\<close>: a tuple or a list gives its components, a text its characters, a
  dictionary its keys; anything else is not iterable.\<close>

fun py_unpack :: "py_value \<Rightarrow> error + py_value list" where
  "py_unpack (PyTuple xs) = Inr xs"
| "py_unpack (PyList xs) = Inr xs"
| "py_unpack (PyStr s) = Inr (map (\<lambda>c. PyStr [c]) s)"
| "py_unpack (PyDict d) = Inr (map (\<lambda>kv. PyStr (fst kv)) d)"
| "py_unpack v = Inl TypeError"

section \<open>Symbolic.py\<close>

subsection \<open>ComputationVariable\<close>

datatype py_uuid = UUID nat

record ComputationVariable =
  cv_uuid :: py_uuid
  cv_name :: "string option"
  cv_label :: "string option"
  cv_value_type :: "string option"
  cv_value :: py_value
  cv_value_default :: py_value
  cv_value_min :: py_value
  cv_value_max :: py_value
  cv_specifier :: "py_dict option"
  cv_control_type :: "string option"
  cv_cascade_delete :: py_value
  \<comment> \<open>how many times \<open>variable_type_changed_event\<close> has fired\<close>
  cv_variable_type_changed_fired :: nat

definition ComputationVariable_init ::
  "py_uuid \<Rightarrow> string option \<Rightarrow> string option \<Rightarrow> py_value \<Rightarrow> py_value \<Rightarrow> py_value \<Rightarrow> py_value \<Rightarrow>
   string option \<Rightarrow> py_dict option \<Rightarrow> string option \<Rightarrow> ComputationVariable" where
  "ComputationVariable_init uuid name value_type val value_default value_min value_max
     control_type specifier label =
     \<lparr>cv_uuid = uuid, cv_name = name,
      cv_label = (case label of Some l \<Rightarrow> (if l \<noteq> [] then Some l else name) | None \<Rightarrow> name),
      cv_value_type = value_type, cv_value = val, cv_value_default = value_default,
      cv_value_min = value_min, cv_value_max = value_max, cv_specifier = specifier,
      cv_control_type = control_type, cv_cascade_delete = PyNone,
      cv_variable_type_changed_fired = 0\<rparr>"

text \<open>The reader and the writer of the four value properties. The \<open>elif\<close> chain of the reader
  falls through to \<open>return None\<close>; the writer is a sequence of independent \<open>if\<close>s.\<close>

definition value_reader ::
  "builtins \<Rightarrow> ComputationVariable \<Rightarrow> string \<Rightarrow> py_dict \<Rightarrow> error + py_value" where
  "value_reader B self key properties =
     (let value_type = cv_value_type self;
          raw_value = dict_get properties key
      in if raw_value \<noteq> PyNone then
           if value_type = Some ''boolean'' then Inr (PyBool (py_truth raw_value))
           else if value_type = Some ''integral'' then map_sum id PyInt (py_int B raw_value)
           else if value_type = Some ''real'' then map_sum id PyFloat (py_float B raw_value)
           else if value_type = Some ''complex'' then
             (case py_unpack raw_value of
                Inl e \<Rightarrow> Inl e
              | Inr args \<Rightarrow> map_sum id PyComplex (py_complex B args))
           else if value_type = Some ''string'' then Inr (PyStr (py_str B raw_value))
           else Inr PyNone
         else Inr PyNone)"

definition value_writer ::
  "builtins \<Rightarrow> ComputationVariable \<Rightarrow> string \<Rightarrow> py_dict \<Rightarrow> py_value \<Rightarrow> error + py_dict" where
  "value_writer B self key properties val =
     (let value_type = cv_value_type self
      in if val \<noteq> PyNone then
           (let properties =
                  (if value_type = Some ''boolean''
                   then dict_set key (PyBool (py_truth val)) properties else properties)
            in case (if value_type = Some ''integral''
                     then map_sum id (\<lambda>i. dict_set key (PyInt i) properties) (py_int B val)
                     else Inr properties) of
                 Inl e \<Rightarrow> Inl e
               | Inr properties \<Rightarrow>
            (case (if value_type = Some ''real''
                   then map_sum id (\<lambda>r. dict_set key (PyFloat r) properties) (py_float B val)
                   else Inr properties) of
                 Inl e \<Rightarrow> Inl e
               | Inr properties \<Rightarrow>
            (case (if value_type = Some ''complex''
                   then map_sum id
                          (\<lambda>c. dict_set key (PyTuple [PyFloat (Re c), PyFloat (Im c)]) properties)
                          (py_complex B [val])
                   else Inr properties) of
                 Inl e \<Rightarrow> Inl e
               | Inr properties \<Rightarrow>
                   Inr (if value_type = Some ''string''
                        then dict_set key (PyStr (py_str B val)) properties else properties))))
         else Inr properties)"

text \<open>The values each scalar \<open>value_type\<close> is meant to hold.\<close>

fun value_of_type :: "string \<Rightarrow> py_value \<Rightarrow> bool" where
  "value_of_type vt (PyBool b) = (vt = ''boolean'')"
| "value_of_type vt (PyInt i) = (vt = ''integral'')"
| "value_of_type vt (PyFloat r) = (vt = ''real'')"
| "value_of_type vt (PyComplex c) = (vt = ''complex'')"
| "value_of_type vt (PyStr s) = (vt = ''string'')"
| "value_of_type vt v = False"

definition control_type_default :: "string \<Rightarrow> string option" where
  "control_type_default value_type =
     map_of [(''boolean'', ''checkbox''), (''integral'', ''slider''), (''real'', ''field''),
             (''complex'', ''field''), (''string'', ''field'')] value_type"

definition variable_type :: "ComputationVariable \<Rightarrow> py_value" where
  "variable_type self =
     (case cv_value_type self of
        Some vt \<Rightarrow> PyStr vt
      | None \<Rightarrow>
          (case cv_specifier self of
             Some sp \<Rightarrow>
               (let specifier_type = dict_get sp ''type'';
                    specifier_property = dict_get sp ''property''
                in if py_truth specifier_property then specifier_property else specifier_type)
           | None \<Rightarrow> PyNone))"

definition data_types :: "string list" where
  "data_types = [''data_item'', ''data'', ''display_data'']"

text \<open>
  The setter of \<open>variable_type\<close>. An exception leaves the variable as the statements before
  it made it, so the error comes with that state. \<open>self.specifier or {"version": 1}\<close> is the
  stored dictionary itself when it is not empty: the deletions and assignments then change
  the stored dictionary at once, before \<open>self.specifier = specifier\<close>.
  \<open>value_type in ("region")\<close> tests for a substring, the parentheses making no tuple.
\<close>

definition clear_scalar_fields :: "ComputationVariable \<Rightarrow> ComputationVariable" where
  "clear_scalar_fields self =
     self\<lparr>cv_value_type := None, cv_control_type := None, cv_value_default := PyNone,
          cv_value_min := PyNone, cv_value_max := PyNone\<rparr>"

definition specifier_or_new :: "ComputationVariable \<Rightarrow> bool \<times> py_dict" where
  "specifier_or_new self =
     (case cv_specifier self of
        Some sp \<Rightarrow> if sp \<noteq> [] then (True, sp) else (False, [(''version'', PyInt 1)])
      | None \<Rightarrow> (False, [(''version'', PyInt 1)]))"

definition write_through :: "bool \<Rightarrow> py_dict \<Rightarrow> ComputationVariable \<Rightarrow> ComputationVariable" where
  "write_through stored specifier self =
     (if stored then self\<lparr>cv_specifier := Some specifier\<rparr> else self)"

definition fire_variable_type_changed :: "ComputationVariable \<Rightarrow> ComputationVariable" where
  "fire_variable_type_changed self =
     self\<lparr>cv_variable_type_changed_fired := Suc (cv_variable_type_changed_fired self)\<rparr>"

definition set_variable_type ::
  "ComputationVariable \<Rightarrow> string \<Rightarrow> (error \<times> ComputationVariable) + ComputationVariable" where
  "set_variable_type self value_type =
     (if PyStr value_type \<noteq> variable_type self then
        if value_type \<in> set [''boolean'', ''integral'', ''real'', ''complex'', ''string''] then
          (let self = self\<lparr>cv_specifier := None\<rparr>;
               self = self\<lparr>cv_value_type := Some value_type\<rparr>;
               self = self\<lparr>cv_control_type := control_type_default value_type\<rparr>;
               self = self\<lparr>cv_value_default :=
                        (if value_type = ''boolean'' then PyBool True
                         else if value_type = ''integral'' then PyInt 0
                         else if value_type = ''real'' then PyFloat 0
                         else if value_type = ''complex'' then PyComplex 0
                         else PyNone)\<rparr>;
               self = self\<lparr>cv_value_min := PyNone\<rparr>;
               self = self\<lparr>cv_value_max := PyNone\<rparr>
           in Inr (fire_variable_type_changed self))
        else if value_type \<in> set data_types then
          (let self = clear_scalar_fields self;
               (stored, specifier) = specifier_or_new self
           in case (if dict_get specifier ''type'' \<notin> set (map PyStr data_types)
                    then dict_del ''uuid'' specifier else Inr specifier) of
                Inl e \<Rightarrow> Inl (e, self)
              | Inr specifier \<Rightarrow>
                  (let specifier = dict_set ''type'' (PyStr ''data_item'') specifier;
                       self = write_through stored specifier self
                   in case (if value_type \<in> set [''data'', ''display_data'']
                            then Inr (dict_set ''property'' (PyStr value_type) specifier)
                            else dict_del ''property'' specifier) of
                        Inl e \<Rightarrow> Inl (e, self)
                      | Inr specifier \<Rightarrow>
                          Inr (fire_variable_type_changed (self\<lparr>cv_specifier := Some specifier\<rparr>))))
        else if sublist value_type ''region'' then
          (let self = clear_scalar_fields self;
               (stored, specifier) = specifier_or_new self;
               specifier = dict_set ''type'' (PyStr value_type) specifier;
               self = write_through stored specifier self
           in case dict_del ''uuid'' specifier of
                Inl e \<Rightarrow> Inl (e, self)
              | Inr specifier \<Rightarrow>
                  (let self = write_through stored specifier self
                   in case dict_del ''property'' specifier of
                        Inl e \<Rightarrow> Inl (e, self)
                      | Inr specifier \<Rightarrow>
                          Inr (fire_variable_type_changed (self\<lparr>cv_specifier := Some specifier\<rparr>))))
        else Inr (fire_variable_type_changed self)
      else Inr self)"

subsection \<open>Computation and ComputationContext\<close>

text \<open>
  What the module takes from outside the repository: the uuid converter, the shared globals
  \<open>Context.context().g\<close>, and the interpreter's \<open>exec\<close>. A raised object is recorded with
  whether it is an instance of \<open>Exception\<close> (as \<open>NameError\<close>, \<open>TypeError\<close>,
  \<open>ZeroDivisionError\<close> and \<open>SyntaxError\<close> are, and \<open>SystemExit\<close> and \<open>KeyboardInterrupt\<close> are
  not), which is what \<open>except Exception\<close> looks at, and with its detail.
\<close>

datatype raised = Raised (is_Exception: bool) (detail: string)

type_synonym namespace = "(string option \<times> py_value) list"

datatype exec_outcome = ExecRaised raised | ExecCompleted "(string \<times> py_value) list"

record python_env =
  convert_back :: "py_value \<Rightarrow> py_uuid option"
  uuid_to_str :: "py_uuid \<Rightarrow> string"
  context_g :: namespace
  exec_code :: "string \<Rightarrow> namespace \<Rightarrow> exec_outcome"

text \<open>What resolving a specifier gives: an object of the host context, of which the module
  reads \<open>value\<close>, or the \<open>BoundVariable\<close> wrapper of a variable.\<close>

datatype bound_item = HostItem py_value | BoundVariable ComputationVariable

fun bound_item_value :: "bound_item \<Rightarrow> py_value" where
  "bound_item_value (HostItem v) = v"
| "bound_item_value (BoundVariable variable) = cv_value variable"

record host_context =
  hc_resolve_object_specifier :: "py_dict \<Rightarrow> bound_item option"

record Computation =
  c_original_expression :: "string option"
  c_error_text :: "string option"
  c_evaluate_error :: "string option"
  c_label :: "string option"
  c_variables :: "ComputationVariable list"
  \<comment> \<open>the attribute \<open>__computation_context\<close> exists only once \<open>bind\<close> has run\<close>
  c_computation_context :: "host_context option"
  c_evaluating :: bool
  c_data_and_metadata :: py_value
  c_needs_update :: bool
  c_evaluation_count_for_test :: nat
  c_needs_parse :: bool

definition Computation_init :: "string option \<Rightarrow> Computation" where
  "Computation_init expression =
     \<lparr>c_original_expression = expression, c_error_text = None, c_evaluate_error = None,
      c_label = None, c_variables = [], c_computation_context = None, c_evaluating = False,
      c_data_and_metadata = PyNone, c_needs_update = (expression \<noteq> None),
      c_evaluation_count_for_test = 0, c_needs_parse = True\<rparr>"

definition bind :: "Computation \<Rightarrow> host_context \<Rightarrow> Computation" where
  "bind self context = self\<lparr>c_computation_context := Some context\<rparr>"

definition variable_specifier :: "python_env \<Rightarrow> ComputationVariable \<Rightarrow> py_dict option" where
  "variable_specifier env self =
     (if cv_value_type self \<noteq> None then
        Some [(''type'', PyStr ''variable''), (''version'', PyInt 1),
              (''uuid'', PyStr (uuid_to_str env (cv_uuid self))),
              (''x-name'', (case cv_name self of None \<Rightarrow> PyNone | Some n \<Rightarrow> PyStr n)),
              (''x-value'', cv_value self)]
      else cv_specifier self)"

definition resolve_variable ::
  "python_env \<Rightarrow> Computation \<Rightarrow> py_dict \<Rightarrow> ComputationVariable option" where
  "resolve_variable env self object_specifier =
     (let uuid_str = dict_get object_specifier ''uuid'';
          uuid_obj = (if py_truth uuid_str then convert_back env uuid_str else None)
      in case uuid_obj of
           Some u \<Rightarrow> find (\<lambda>variable. cv_uuid variable = u) (c_variables self)
         | None \<Rightarrow> None)"

text \<open>\<open>ComputationContext.resolve_object_specifier\<close>; a variable object is always true,
  so \<open>not variable\<close> holds exactly when no variable was found.\<close>

definition resolve_object_specifier ::
  "python_env \<Rightarrow> Computation \<Rightarrow> host_context \<Rightarrow> py_dict \<Rightarrow> bound_item option" where
  "resolve_object_specifier env computation context object_specifier =
     (case resolve_variable env computation object_specifier of
        None \<Rightarrow> hc_resolve_object_specifier context object_specifier
      | Some variable \<Rightarrow>
          if cv_specifier variable = None then Some (BoundVariable variable) else None)"

text \<open>\<open>str.split("\n")\<close> and \<open>"\n".join\<close>.\<close>

fun split_on :: "char \<Rightarrow> string \<Rightarrow> string list" where
  "split_on sep [] = [[]]"
| "split_on sep (c # cs) =
     (if c = sep then [] # split_on sep cs
      else (case split_on sep cs of [] \<Rightarrow> [[c]] | l # ls \<Rightarrow> (c # l) # ls))"

fun join_with :: "string \<Rightarrow> string list \<Rightarrow> string" where
  "join_with sep [] = []"
| "join_with sep [l] = l"
| "join_with sep (l # ls) = l @ sep @ join_with sep ls"

definition newline :: char where
  "newline = CHR 0x0A"

text \<open>The program \<open>__parse_expression\<close> hands to \<open>exec\<close>: the expression with
  \<open>import uuid\<close> before it and its last line turned into an assignment to \<open>result\<close>.\<close>

definition assemble_code :: "string \<Rightarrow> string" where
  "assemble_code expression =
     (let expression_lines = split_on newline expression;
          expression_lines = butlast expression_lines @ [''result = '' @ last expression_lines]
      in join_with [newline] (''import uuid'' # expression_lines))"

text \<open>The globals of the program: the shared globals, the two lookup functions, and the
  value of every variable whose specifier resolves.\<close>

definition computation_variable_map ::
  "python_env \<Rightarrow> Computation \<Rightarrow> (string option \<times> py_dict) list" where
  "computation_variable_map env self =
     fold (\<lambda>variable m.
             (case variable_specifier env variable of
                Some sp \<Rightarrow> if sp \<noteq> [] then AList.update (cv_name variable) sp m else m
              | None \<Rightarrow> m))
          (c_variables self) []"

definition program_globals :: "python_env \<Rightarrow> Computation \<Rightarrow> host_context \<Rightarrow> namespace" where
  "program_globals env self context =
     (let g = context_g env;
          g = AList.update (Some ''data_by_uuid'') (PyObject ''partial(data_by_uuid)'') g;
          g = AList.update (Some ''region_by_uuid'') (PyObject ''partial(region_by_uuid)'') g
      in fold (\<lambda>(variable_name, object_specifier) g.
                 (case resolve_object_specifier env self context object_specifier of
                    Some resolved_object \<Rightarrow>
                      AList.update variable_name (bound_item_value resolved_object) g
                  | None \<Rightarrow> g))
              (computation_variable_map env self) g)"

text \<open>
  \<open>__parse_expression\<close>. Reading \<open>__computation_context\<close> before \<open>bind\<close> raises outside the
  \<open>try\<close>. Inside it, \<open>exec\<close> may raise and \<open>l["result"]\<close> raises \<open>KeyError\<close> when the program
  bound no \<open>result\<close>; \<open>except Exception\<close> handles instances of \<open>Exception\<close> and lets anything
  else pass to the caller.
\<close>

definition parse_expression ::
  "python_env \<Rightarrow> Computation \<Rightarrow> string option \<Rightarrow> raised + Computation" where
  "parse_expression env self expression =
     (case expression of
        None \<Rightarrow> Inr self
      | Some expression \<Rightarrow>
          if expression = [] then Inr self
          else
            (case c_computation_context self of
               None \<Rightarrow> Inl (Raised True ''AttributeError'')
             | Some computation_context \<Rightarrow>
                 (let g = program_globals env self computation_context;
                      code = assemble_code expression
                  in case (case exec_code env code g of
                             ExecRaised e \<Rightarrow>
                               if is_Exception e then Inr (PyNone, Some ''Execution Error'')
                               else Inl e
                           | ExecCompleted l \<Rightarrow>
                               (case map_of l ''result'' of
                                  Some r \<Rightarrow> Inr (r, None)
                                | None \<Rightarrow> Inr (PyNone, Some ''Execution Error''))) of
                       Inl e \<Rightarrow> Inl e
                     | Inr (data_and_metadata, error_text) \<Rightarrow>
                         Inr (self\<lparr>c_data_and_metadata := data_and_metadata,
                                   c_error_text := error_text,
                                   c_needs_parse := False\<rparr>))))"

definition begin_evaluate :: "Computation \<Rightarrow> Computation \<times> bool" where
  "begin_evaluate self =
     (let evaluating = c_evaluating self;
          self = self\<lparr>c_evaluating := True\<rparr>
      in (self, \<not> evaluating))"

definition end_evaluate :: "Computation \<Rightarrow> Computation" where
  "end_evaluate self = self\<lparr>c_evaluating := False\<rparr>"

definition evaluate :: "python_env \<Rightarrow> Computation \<Rightarrow> raised + (Computation \<times> py_value)" where
  "evaluate env self =
     (let self = self\<lparr>c_evaluation_count_for_test := c_evaluation_count_for_test self + 1\<rparr>;
          self = self\<lparr>c_needs_update := False\<rparr>
      in case (if c_needs_parse self then parse_expression env self (c_original_expression self)
               else Inr self) of
           Inl e \<Rightarrow> Inl e
         | Inr self \<Rightarrow> Inr (self, c_data_and_metadata self))"

text \<open>A sequence of calls of the evaluation transaction and what each \<open>begin_evaluate\<close>
  of it returned.\<close>

datatype evaluate_call = BeginEvaluate | EndEvaluate

fun run_calls :: "Computation \<Rightarrow> evaluate_call list \<Rightarrow> Computation \<times> bool list" where
  "run_calls self [] = (self, [])"
| "run_calls self (BeginEvaluate # calls) =
     (let (self, ok) = begin_evaluate self;
          (self, oks) = run_calls self calls
      in (self, ok # oks))"
| "run_calls self (EndEvaluate # calls) = run_calls (end_evaluate self) calls"

section \<open>Operation.py\<close>

subsection \<open>Data\<close>

text \<open>A numpy array by value: its shape, the name of its dtype and its elements;
  \<open>data.copy()\<close> is a new array with the same value.\<close>

datatype ndarray = NDArray (shape: "nat list") (dtype: string) (elements: "real list")

definition ndarray_copy :: "ndarray \<Rightarrow> ndarray" where
  "ndarray_copy data = data"

definition shape_tuple :: "ndarray \<Rightarrow> py_value list" where
  "shape_tuple data = map (\<lambda>n. PyInt (int n)) (shape data)"

text \<open>\<open>t[i]\<close> on a tuple, for an index that is not negative.\<close>

definition tuple_at :: "py_value list \<Rightarrow> nat \<Rightarrow> error + py_value" where
  "tuple_at t i = (if i < length t then Inr (t ! i) else Inl IndexError)"

record calibration =
  cal_origin :: real
  cal_scale :: real
  cal_units :: string

text \<open>A number that is not complex, as a real.\<close>

fun py_real :: "py_value \<Rightarrow> real option" where
  "py_real (PyBool b) = Some (if b then 1 else 0)"
| "py_real (PyInt i) = Some (of_int i)"
| "py_real (PyFloat r) = Some r"
| "py_real v = None"

text \<open>\<open>n == v\<close> for an integer \<open>n\<close>: numbers compare by value, anything else differs.\<close>

definition py_eq_int :: "int \<Rightarrow> py_value \<Rightarrow> bool" where
  "py_eq_int n v \<longleftrightarrow> py_number v = Some (of_int n)"

subsection \<open>Operation and its subclasses\<close>

datatype operation_class =
    FFTOperation
  | IFFTOperation
  | InvertOperation
  | GaussianBlurOperation
  | Crop2dOperation
  | Resample2dOperation
  | HistogramOperation
  | LineProfileOperation
  | ConvertToScalarOperation

text \<open>An operation object: its class and its instance attributes, which \<open>__init__\<close> and
  \<open>setattr\<close> write.\<close>

record Operation =
  op_class :: operation_class
  op_dict :: py_dict

text \<open>
  What the module takes from outside the repository: the translation function \<open>_\<close>, the
  attributes an instance finds on its class rather than in its own dictionary (methods and
  the names every object has), the functions of \<open>Image\<close>, and the numeric kernels (scipy,
  numpy) behind the methods that the subclasses other than \<open>Resample2dOperation\<close> override.
\<close>

record library =
  gettext :: "string \<Rightarrow> string"
  class_attr :: "operation_class \<Rightarrow> string \<Rightarrow> py_value option"
  Image_scaled :: "ndarray \<Rightarrow> py_value \<times> py_value \<Rightarrow> error + ndarray"
  Image_is_shape_and_dtype_rgba :: "py_value list \<Rightarrow> string \<Rightarrow> bool"
  Image_is_shape_and_dtype_rgb :: "py_value list \<Rightarrow> string \<Rightarrow> bool"
  kernel_process_data_in_place :: "Operation \<Rightarrow> ndarray \<Rightarrow> error + ndarray"
  kernel_get_processed_data_shape_and_dtype ::
    "Operation \<Rightarrow> py_value list \<Rightarrow> string \<Rightarrow> error + (py_value list \<times> string)"
  kernel_get_processed_calibrations ::
    "Operation \<Rightarrow> py_value list \<Rightarrow> string \<Rightarrow> calibration list \<Rightarrow> error + calibration list"

definition Operation_init ::
  "operation_class \<Rightarrow> string \<Rightarrow> string \<Rightarrow> py_dict list \<Rightarrow> Operation" where
  "Operation_init cls name operation_id description =
     \<lparr>op_class = cls,
      op_dict = [(''name'', PyStr name), (''operation_id'', PyStr operation_id),
                 (''description'', PyList (map PyDict description))]\<rparr>"

definition setattr :: "Operation \<Rightarrow> string \<Rightarrow> py_value \<Rightarrow> Operation" where
  "setattr self attr v = self\<lparr>op_dict := dict_set attr v (op_dict self)\<rparr>"

definition getattr :: "library \<Rightarrow> Operation \<Rightarrow> string \<Rightarrow> py_value option" where
  "getattr L self attr =
     (case map_of (op_dict self) attr of
        Some v \<Rightarrow> Some v
      | None \<Rightarrow> class_attr L (op_class self) attr)"

definition FFTOperation_init :: "library \<Rightarrow> Operation" where
  "FFTOperation_init L = Operation_init FFTOperation (gettext L ''FFT'') ''fft-operation'' []"

definition IFFTOperation_init :: "library \<Rightarrow> Operation" where
  "IFFTOperation_init L =
     Operation_init IFFTOperation (gettext L ''Inverse FFT'') ''inverse-fft-operation'' []"

definition InvertOperation_init :: "library \<Rightarrow> Operation" where
  "InvertOperation_init L =
     Operation_init InvertOperation (gettext L ''Invert'') ''invert-operation'' []"

definition GaussianBlurOperation_init :: "library \<Rightarrow> Operation" where
  "GaussianBlurOperation_init L =
     (let description =
            [[(''name'', PyStr (gettext L ''Radius'')), (''property'', PyStr ''sigma''),
              (''type'', PyStr ''scalar''), (''default'', PyFloat (3/10))]];
          self = Operation_init GaussianBlurOperation (gettext L ''Gaussian Blur'')
                   ''gaussian-blur-operation'' description
      in setattr self ''sigma'' (PyFloat (3/10)))"

definition unit_bounds :: py_value where
  "unit_bounds = PyTuple [PyTuple [PyFloat 0, PyFloat 0], PyTuple [PyFloat 1, PyFloat 1]]"

definition Crop2dOperation_init :: "library \<Rightarrow> Operation" where
  "Crop2dOperation_init L =
     (let description =
            [[(''name'', PyStr (gettext L ''Bounds'')), (''property'', PyStr ''bounds''),
              (''type'', PyStr ''rectangle''), (''default'', unit_bounds)]];
          self = Operation_init Crop2dOperation (gettext L ''Crop'') ''crop-operation'' description
      in setattr self ''bounds'' unit_bounds)"

definition Resample2dOperation_init :: "library \<Rightarrow> Operation" where
  "Resample2dOperation_init L =
     (let description =
            [[(''name'', PyStr (gettext L ''Width'')), (''property'', PyStr ''width''),
              (''type'', PyStr ''integer-field''), (''default'', PyNone)],
             [(''name'', PyStr (gettext L ''Height'')), (''property'', PyStr ''height''),
              (''type'', PyStr ''integer-field''), (''default'', PyNone)]];
          self = Operation_init Resample2dOperation (gettext L ''Resample'')
                   ''resample-operation'' description;
          self = setattr self ''width'' (PyInt 0);
          self = setattr self ''height'' (PyInt 0)
      in self)"

definition HistogramOperation_init :: "library \<Rightarrow> Operation" where
  "HistogramOperation_init L =
     setattr (Operation_init HistogramOperation (gettext L ''Histogram'') ''histogram-operation'' [])
       ''bins'' (PyInt 256)"

definition default_vector :: py_value where
  "default_vector =
     PyTuple [PyTuple [PyFloat (1/4), PyFloat (1/4)], PyTuple [PyFloat (3/4), PyFloat (3/4)]]"

definition LineProfileOperation_init :: "library \<Rightarrow> Operation" where
  "LineProfileOperation_init L =
     (let description =
            [[(''name'', PyStr (gettext L ''Vector'')), (''property'', PyStr ''vector''),
              (''type'', PyStr ''line''), (''default'', default_vector)]];
          self = Operation_init LineProfileOperation (gettext L ''Line Profile'')
                   ''line-profile-operation'' description
      in setattr self ''vector'' default_vector)"

definition ConvertToScalarOperation_init :: "library \<Rightarrow> Operation" where
  "ConvertToScalarOperation_init L =
     Operation_init ConvertToScalarOperation (gettext L ''Convert to Scalar'')
       ''convert-to-scalar-operation'' []"

text \<open>\<open>Operation.get_property\<close>: the attribute when the object has it, else the default.\<close>

definition Operation_get_property :: "library \<Rightarrow> Operation \<Rightarrow> string \<Rightarrow> py_value \<Rightarrow> py_value" where
  "Operation_get_property L self property_id default_value =
     (case getattr L self property_id of Some v \<Rightarrow> v | None \<Rightarrow> default_value)"

text \<open>\<open>Resample2dOperation\<close>. The default handed to \<open>get_property\<close> is evaluated before the
  call, so a shape too short for the index raises whatever the attribute holds.\<close>

definition Resample2dOperation_process_data_copy ::
  "library \<Rightarrow> Operation \<Rightarrow> ndarray \<Rightarrow> error + ndarray" where
  "Resample2dOperation_process_data_copy L self data_copy =
     (case tuple_at (shape_tuple data_copy) 0 of
        Inl e \<Rightarrow> Inl e
      | Inr shape0 \<Rightarrow>
          (let height = Operation_get_property L self ''height'' shape0
           in case tuple_at (shape_tuple data_copy) 1 of
                Inl e \<Rightarrow> Inl e
              | Inr shape1 \<Rightarrow>
                  (let width = Operation_get_property L self ''width'' shape1
                   in if py_eq_int (int (shape data_copy ! 1)) width \<and>
                         py_eq_int (int (shape data_copy ! 0)) height
                      then Inr data_copy
                      else Image_scaled L data_copy (height, width))))"

definition Resample2dOperation_get_processed_data_shape_and_dtype ::
  "library \<Rightarrow> Operation \<Rightarrow> py_value list \<Rightarrow> string \<Rightarrow> error + (py_value list \<times> string)" where
  "Resample2dOperation_get_processed_data_shape_and_dtype L self data_shape data_dtype =
     (case tuple_at data_shape 0 of
        Inl e \<Rightarrow> Inl e
      | Inr shape0 \<Rightarrow>
          (let height = Operation_get_property L self ''height'' shape0
           in case tuple_at data_shape 1 of
                Inl e \<Rightarrow> Inl e
              | Inr shape1 \<Rightarrow>
                  (let width = Operation_get_property L self ''width'' shape1
                   in if Image_is_shape_and_dtype_rgba L data_shape data_dtype \<or>
                         Image_is_shape_and_dtype_rgb L data_shape data_dtype
                      then Inr ([height, width, last data_shape], data_dtype)
                      else Inr ([height, width], data_dtype))))"

text \<open>One calibration of the list comprehension of
  \<open>Resample2dOperation.get_processed_calibrations\<close>.\<close>

definition resampled_calibration ::
  "calibration \<Rightarrow> py_value list \<Rightarrow> py_value list \<Rightarrow> nat \<Rightarrow> error + calibration" where
  "resampled_calibration source data_shape dimensions i =
     (case tuple_at data_shape i of
        Inl e \<Rightarrow> Inl e
      | Inr n \<Rightarrow>
          (case (py_real n, py_real (dimensions ! i)) of
             (Some extent, Some dimension) \<Rightarrow>
               if dimension = 0 then Inl ZeroDivisionError
               else Inr \<lparr>cal_origin = cal_origin source,
                         cal_scale = cal_scale source * extent / dimension,
                         cal_units = cal_units source\<rparr>
           | _ \<Rightarrow> Inl TypeError))"

definition Resample2dOperation_get_processed_calibrations ::
  "library \<Rightarrow> Operation \<Rightarrow> py_value list \<Rightarrow> string \<Rightarrow> calibration list \<Rightarrow>
   error + calibration list" where
  "Resample2dOperation_get_processed_calibrations L self data_shape data_dtype source_calibrations =
     (if length source_calibrations \<noteq> 2 then Inl AssertionError
      else
        (case tuple_at data_shape 0 of
           Inl e \<Rightarrow> Inl e
         | Inr shape0 \<Rightarrow>
             (let height = Operation_get_property L self ''height'' shape0
              in case tuple_at data_shape 1 of
                   Inl e \<Rightarrow> Inl e
                 | Inr shape1 \<Rightarrow>
                     (let width = Operation_get_property L self ''width'' shape1;
                          dimensions = [height, width]
                      in case resampled_calibration (source_calibrations ! 0) data_shape dimensions 0 of
                           Inl e \<Rightarrow> Inl e
                         | Inr c0 \<Rightarrow>
                             (case resampled_calibration (source_calibrations ! 1) data_shape
                                     dimensions 1 of
                                Inl e \<Rightarrow> Inl e
                              | Inr c1 \<Rightarrow> Inr [c0, c1])))))"

text \<open>
  The methods by class. \<open>process_data_copy\<close> is overridden by \<open>Resample2dOperation\<close> only and
  raises in the base class; every other subclass overrides \<open>process_data_in_place\<close>, whose
  base version processes a copy.
\<close>

definition Operation_process_data_copy :: "library \<Rightarrow> Operation \<Rightarrow> ndarray \<Rightarrow> error + ndarray" where
  "Operation_process_data_copy L self data_copy =
     (if op_class self = Resample2dOperation
      then Resample2dOperation_process_data_copy L self data_copy
      else Inl NotImplementedError)"

definition Operation_process_data_in_place ::
  "library \<Rightarrow> Operation \<Rightarrow> ndarray \<Rightarrow> error + ndarray" where
  "Operation_process_data_in_place L self data =
     (if op_class self = Resample2dOperation
      then Operation_process_data_copy L self (ndarray_copy data)
      else kernel_process_data_in_place L self data)"

definition Operation_get_processed_calibrations ::
  "library \<Rightarrow> Operation \<Rightarrow> py_value list \<Rightarrow> string \<Rightarrow> calibration list \<Rightarrow>
   error + calibration list" where
  "Operation_get_processed_calibrations L self data_shape data_dtype source_calibrations =
     (if op_class self = Resample2dOperation
      then Resample2dOperation_get_processed_calibrations L self data_shape data_dtype
             source_calibrations
      else if op_class self \<in> {FFTOperation, IFFTOperation, LineProfileOperation}
      then kernel_get_processed_calibrations L self data_shape data_dtype source_calibrations
      else Inr source_calibrations)"

definition Operation_get_processed_intensity_calibration ::
  "library \<Rightarrow> Operation \<Rightarrow> py_value list \<Rightarrow> string \<Rightarrow> calibration \<Rightarrow> error + calibration" where
  "Operation_get_processed_intensity_calibration L self data_shape data_dtype
     intensity_calibration = Inr intensity_calibration"

definition Operation_get_processed_data_shape_and_dtype ::
  "library \<Rightarrow> Operation \<Rightarrow> py_value list \<Rightarrow> string \<Rightarrow> error + (py_value list \<times> string)" where
  "Operation_get_processed_data_shape_and_dtype L self data_shape data_dtype =
     (if op_class self = Resample2dOperation
      then Resample2dOperation_get_processed_data_shape_and_dtype L self data_shape data_dtype
      else if op_class self \<in> {IFFTOperation, InvertOperation, GaussianBlurOperation}
      then Inr (data_shape, data_dtype)
      else kernel_get_processed_data_shape_and_dtype L self data_shape data_dtype)"

subsection \<open>OperationManager\<close>

type_synonym registry = "(string \<times> Operation) list"

definition register_operation :: "string \<Rightarrow> Operation \<Rightarrow> registry \<Rightarrow> registry" where
  "register_operation operation_id operation operations =
     AList.update operation_id operation operations"

definition build_operation :: "registry \<Rightarrow> string \<Rightarrow> Operation option" where
  "build_operation operations operation_id = map_of operations operation_id"

text \<open>The registrations the module makes when it is loaded.\<close>

definition module_registry :: "library \<Rightarrow> registry" where
  "module_registry L =
     (register_operation ''convert-to-scalar-operation'' (ConvertToScalarOperation_init L)
     (register_operation ''line-profile-operation'' (LineProfileOperation_init L)
     (register_operation ''histogram-operation'' (HistogramOperation_init L)
     (register_operation ''resample-operation'' (Resample2dOperation_init L)
     (register_operation ''crop-operation'' (Crop2dOperation_init L)
     (register_operation ''gaussian-blur-operation'' (GaussianBlurOperation_init L)
     (register_operation ''invert-operation'' (InvertOperation_init L)
     (register_operation ''inverse-fft-operation'' (IFFTOperation_init L)
     (register_operation ''fft-operation'' (FFTOperation_init L) [])))))))))"

subsection \<open>OperationItem\<close>

record OperationItem =
  oi_operation :: "Operation option"
  oi_name :: py_value
  oi_enabled :: bool
  oi_operation_id :: string
  oi_description :: "py_value list"
  oi_properties :: "py_value list"
  oi_values :: py_dict

text \<open>\<open>description_entry["property"]\<close> of the list comprehension in \<open>__init__\<close>.\<close>

fun entry_property :: "py_value \<Rightarrow> error + py_value" where
  "entry_property (PyDict d) =
     (case map_of d ''property'' of None \<Rightarrow> Inl (KeyError ''property'') | Some v \<Rightarrow> Inr v)"
| "entry_property v = Inl TypeError"

fun entry_properties :: "py_value list \<Rightarrow> error + py_value list" where
  "entry_properties [] = Inr []"
| "entry_properties (entry # entries) =
     (case entry_property entry of
        Inl e \<Rightarrow> Inl e
      | Inr p \<Rightarrow> (case entry_properties entries of Inl e \<Rightarrow> Inl e | Inr ps \<Rightarrow> Inr (p # ps)))"

definition OperationItem_init :: "library \<Rightarrow> registry \<Rightarrow> string \<Rightarrow> error + OperationItem" where
  "OperationItem_init L operations operation_id =
     (let operation = build_operation operations operation_id;
          name = (case operation of
                    Some op \<Rightarrow> getattr L op ''name''
                  | None \<Rightarrow> Some (PyStr (gettext L ''Unavailable Operation'')));
          description = (case operation of
                           Some op \<Rightarrow> map_option py_unpack (getattr L op ''description'')
                         | None \<Rightarrow> Some (Inr []))
      in case name of
           None \<Rightarrow> Inl (AttributeError ''name'')
         | Some name \<Rightarrow>
             (case description of
                None \<Rightarrow> Inl (AttributeError ''description'')
              | Some (Inl e) \<Rightarrow> Inl e
              | Some (Inr description) \<Rightarrow>
                  (case entry_properties description of
                     Inl e \<Rightarrow> Inl e
                   | Inr properties \<Rightarrow>
                       Inr \<lparr>oi_operation = operation, oi_name = name, oi_enabled = True,
                            oi_operation_id = operation_id, oi_description = description,
                            oi_properties = properties, oi_values = []\<rparr>)))"

definition OperationItem_process_data :: "library \<Rightarrow> OperationItem \<Rightarrow> ndarray \<Rightarrow> error + ndarray" where
  "OperationItem_process_data L self data =
     (case oi_operation self of
        Some operation \<Rightarrow> Operation_process_data_in_place L operation data
      | None \<Rightarrow> Inr (ndarray_copy data))"

definition OperationItem_get_processed_calibrations ::
  "library \<Rightarrow> OperationItem \<Rightarrow> py_value list \<Rightarrow> string \<Rightarrow> calibration list \<Rightarrow>
   error + calibration list" where
  "OperationItem_get_processed_calibrations L self data_shape data_dtype source_calibrations =
     (case oi_operation self of
        Some operation \<Rightarrow>
          Operation_get_processed_calibrations L operation data_shape data_dtype source_calibrations
      | None \<Rightarrow> Inr source_calibrations)"

text \<open>
  \<open>get_processed_intensity_calibration\<close>: its parameters are \<open>self\<close>, \<open>data_shape\<close>,
  \<open>data_dtype\<close> and \<open>intensity_calibration\<close>. The \<open>else\<close> branch returns the name
  \<open>source_calibrations\<close>, which is neither one of them nor bound by the module nor a builtin:
  evaluating it raises \<open>NameError\<close>.
\<close>

definition OperationItem_get_processed_intensity_calibration ::
  "library \<Rightarrow> OperationItem \<Rightarrow> py_value list \<Rightarrow> string \<Rightarrow> calibration \<Rightarrow> error + calibration" where
  "OperationItem_get_processed_intensity_calibration L self data_shape data_dtype
     intensity_calibration =
     (case oi_operation self of
        Some operation \<Rightarrow>
          Operation_get_processed_intensity_calibration L operation data_shape data_dtype
            intensity_calibration
      | None \<Rightarrow> Inl (NameError ''source_calibrations''))"

definition OperationItem_get_processed_data_shape_and_dtype ::
  "library \<Rightarrow> OperationItem \<Rightarrow> py_value list \<Rightarrow> string \<Rightarrow> error + (py_value list \<times> string)" where
  "OperationItem_get_processed_data_shape_and_dtype L self data_shape data_dtype =
     (case oi_operation self of
        Some operation \<Rightarrow>
          Operation_get_processed_data_shape_and_dtype L operation data_shape data_dtype
      | None \<Rightarrow> Inr (data_shape, data_dtype))"

section \<open>Concrete objects\<close>

text \<open>Objects the theorems below are run on: builtins whose parsers reject every text, a
  scalar variable, a variable that refers to a data item, an interpreter in which the
  program of the expression \<open>1/0\<close> raises \<open>ZeroDivisionError\<close> and that of \<open>exit()\<close>
  raises \<open>SystemExit\<close>, a host context that resolves every specifier,
  a bound computation that owns the referring variable, a bound computation for
  \<open>exit()\<close>, and one for an expression whose last line closes a text that the line
  before it opens, so that its program completes and binds no \<open>result\<close>.\<close>

definition sample_builtins :: builtins where
  "sample_builtins =
     \<lparr>int_of_str = (\<lambda>s. None), float_of_str = (\<lambda>s. None), complex_of_str = (\<lambda>s. None),
      str_of = (\<lambda>v. ''object'')\<rparr>"

definition sample_variable :: ComputationVariable where
  "sample_variable =
     ComputationVariable_init (UUID 1) (Some ''x'') (Some ''real'') (PyFloat 1) (PyFloat 0)
       (PyFloat 0) (PyFloat 10) (Some ''field'') None None"

definition complex_variable :: ComputationVariable where
  "complex_variable =
     ComputationVariable_init (UUID 3) (Some ''z'') (Some ''complex'') PyNone PyNone PyNone PyNone
       (Some ''field'') None None"

definition reference_variable :: ComputationVariable where
  "reference_variable =
     ComputationVariable_init (UUID 2) (Some ''a'') None PyNone PyNone PyNone PyNone None
       (Some [(''version'', PyInt 1), (''type'', PyStr ''data_item''), (''uuid'', PyStr ''d-7'')])
       None"

definition triple_quote :: string where
  "triple_quote = [CHR 0x27, CHR 0x27, CHR 0x27]"

definition sample_env :: python_env where
  "sample_env =
     \<lparr>convert_back = (\<lambda>v. if v = PyStr ''v-2'' then Some (UUID 2) else None),
      uuid_to_str = (\<lambda>u. case u of UUID n \<Rightarrow> if n = 2 then ''v-2'' else ''v''),
      context_g = [],
      exec_code = (\<lambda>code g.
        if code = ''import uuid'' @ [newline] @ ''result = 1/0''
        then ExecRaised (Raised True ''ZeroDivisionError: division by zero'')
        else if code = ''import uuid'' @ [newline] @ ''result = exit()''
        then ExecRaised (Raised False ''SystemExit'')
        else if code = ''import uuid'' @ [newline] @ ''x = '' @ triple_quote @ [newline] @
                       ''result = '' @ triple_quote
        then ExecCompleted [(''uuid'', PyObject ''module uuid''),
                            (''x'', PyStr ([newline] @ ''result = ''))]
        else ExecCompleted [(''result'', PyInt 0)])\<rparr>"

definition sample_context :: host_context where
  "sample_context = \<lparr>hc_resolve_object_specifier = (\<lambda>sp. Some (HostItem (PyObject ''data'')))\<rparr>"

definition sample_computation :: Computation where
  "sample_computation =
     bind ((Computation_init (Some ''1/0''))\<lparr>c_variables := [reference_variable]\<rparr>) sample_context"

definition unbound_result_expression :: string where
  "unbound_result_expression = ''x = '' @ triple_quote @ [newline] @ triple_quote"

definition unbound_result_computation :: Computation where
  "unbound_result_computation =
     bind (Computation_init (Some unbound_result_expression)) sample_context"

definition exit_computation :: Computation where
  "exit_computation = bind (Computation_init (Some ''exit()'')) sample_context"

section \<open>Graphics.py: theorems\<close>

text \<open>
  Claim C1, as the code has it. Write \<open>rect = ((o0, o1), (s0, s1))\<close>; the claim's
  \<open>size.x\<close> is the first component \<open>s0\<close> and its \<open>size.y\<close> the second, \<open>s1\<close>. For a
  positive ratio \<open>fit_to_aspect_ratio\<close> returns a rectangle: when \<open>s1 > aspect_ratio * s0\<close>
  its size is \<open>(s0, s0 * aspect_ratio)\<close>, its origin keeps the first component and it is
  centered in \<open>rect\<close> along the second; otherwise its size is \<open>(s1 / aspect_ratio, s1)\<close>, its
  origin keeps the second component and it is centered along the first. For
  \<open>((0,0),(10,20))\<close> and the ratio \<open>0.5\<close> the result is \<open>((0, 7.5), (10, 5))\<close>: its size is
  \<open>(10, 5)\<close>.
\<close>

theorem fit_to_aspect_ratio_branches:
  assumes "0 < aspect_ratio"
  shows "(case fit_to_aspect_ratio ((o0, o1), (s0, s1)) aspect_ratio of
            Inl e \<Rightarrow> False
          | Inr (new_origin, new_size) \<Rightarrow>
              (if s1 > aspect_ratio * s0
               then new_size = (s0, s0 * aspect_ratio) \<and> fst new_origin = o0 \<and>
                    snd new_origin + snd new_size / 2 = o1 + s1 / 2
               else new_size = (s1 / aspect_ratio, s1) \<and> snd new_origin = o1 \<and>
                    fst new_origin + fst new_size / 2 = o0 + s0 / 2)) \<and>
         fit_to_aspect_ratio ((0, 0), (10, 20)) (1/2) = Inr ((0, 15/2), (10, 5))"
proof (cases "s1 > aspect_ratio * s0")
  case True
  then show ?thesis
    by (simp add: fit_to_aspect_ratio_def Let_def field_simps)
next
  case False
  with assms show ?thesis
    by (simp add: fit_to_aspect_ratio_def Let_def field_simps)
qed

theorem fit_to_aspect_ratio_branches_witness:
  "(0::real) < 1/2 \<and>
   fit_to_aspect_ratio ((0, 0), (10, 20)) (1/2) = Inr ((0, 15/2), (10, 5)) \<and>
   fit_to_aspect_ratio ((0, 0), (20, 4)) (1/2) = Inr ((6, 0), (8, 4))"
  using fit_to_aspect_ratio_branches [of "1/2" 0 0 10 20]
        fit_to_aspect_ratio_branches [of "1/2" 0 0 20 4]
  by (auto simp add: fit_to_aspect_ratio_def)

text \<open>The example of claim C1 as the claim states it fails: the size returned for
  \<open>((0,0),(10,20))\<close> and \<open>0.5\<close> is \<open>(10, 5)\<close>, not \<open>(5, 10)\<close>.\<close>

theorem fit_to_aspect_ratio_example_counterexample:
  "fit_to_aspect_ratio ((0, 0), (10, 20)) (1/2) = Inr ((0, 15/2), (10, 5)) \<and>
   snd ((0::real, 15/2::real), (10::real, 5::real)) \<noteq> (5, 10)"
  by (simp add: fit_to_aspect_ratio_def)

text \<open>
  Claim C2. A bounds value \<open>((oy, ox), (h, w))\<close> with \<open>h < 0\<close> or \<open>w < 0\<close> assigned to the
  bounds of a rectangle or an ellipse is stored with both size components non-negative:
  the size is \<open>(|h|, |w|)\<close> and the origin moves by the negative size along that axis, so
  the edges of the region are the same. Both classes store the same value.
\<close>

theorem set_bounds_normalized:
  assumes "h < 0 \<or> w < 0"
  shows "0 \<le> fst (snd (rg_bounds (RectangleGraphic_set_bounds rg ((oy, ox), (h, w))))) \<and>
         0 \<le> snd (snd (rg_bounds (RectangleGraphic_set_bounds rg ((oy, ox), (h, w))))) \<and>
         rg_bounds (RectangleGraphic_set_bounds rg ((oy, ox), (h, w))) =
           ((if h < 0 then oy + h else oy, if w < 0 then ox + w else ox), (\<bar>h\<bar>, \<bar>w\<bar>)) \<and>
         edges (rg_bounds (RectangleGraphic_set_bounds rg ((oy, ox), (h, w)))) =
           edges ((oy, ox), (h, w)) \<and>
         eg_bounds (EllipseGraphic_set_bounds eg ((oy, ox), (h, w))) =
           rg_bounds (RectangleGraphic_set_bounds rg ((oy, ox), (h, w)))"
  by (auto simp add: RectangleGraphic_set_bounds_def EllipseGraphic_set_bounds_def edges_def Let_def)

theorem set_bounds_normalized_witness:
  "((-2/10 :: real) < 0 \<or> (3/10 :: real) < 0) \<and>
   rg_bounds (RectangleGraphic_set_bounds RectangleGraphic_init ((5/10, 5/10), (-2/10, 3/10))) =
     ((3/10, 5/10), (2/10, 3/10)) \<and>
   eg_bounds (EllipseGraphic_set_bounds EllipseGraphic_init ((5/10, 5/10), (-2/10, 3/10))) =
     ((3/10, 5/10), (2/10, 3/10))"
  using set_bounds_normalized
    [of "-2/10" "3/10" RectangleGraphic_init "5/10" "5/10" EllipseGraphic_init]
  by simp

text \<open>With numbers as reals, the hit tests of the rectangle and of the ellipse always
  return, and so does the hit test of a line whose end points differ in widget
  coordinates.\<close>

lemma RectangleGraphic_test_returns:
  "\<exists>part. RectangleGraphic_test self m tp move_only = Inr part"
  by (simp add: RectangleGraphic_test_def Let_def)

lemma EllipseGraphic_test_returns:
  "\<exists>part. EllipseGraphic_test self m tp move_only = Inr part"
  by (simp add: EllipseGraphic_test_def Let_def)

lemma LineGraphic_test_returns:
  assumes "map_point_image_norm_to_widget m (lg_start self) \<noteq>
           map_point_image_norm_to_widget m (lg_end self)"
  shows "\<exists>part. LineGraphic_test self m tp move_only = Inr part"
proof -
  let ?p1 = "map_point_image_norm_to_widget m (lg_start self)"
  let ?p2 = "map_point_image_norm_to_widget m (lg_end self)"
  have "fst ?p2 - fst ?p1 \<noteq> 0 \<or> snd ?p2 - snd ?p1 \<noteq> 0"
    using assms by (auto simp add: prod_eq_iff)
  then have "sqrt ((fst ?p2 - fst ?p1)\<^sup>2 + (snd ?p2 - snd ?p1)\<^sup>2) \<noteq> 0"
    by auto
  then show ?thesis
    by (auto simp add: LineGraphic_test_def test_line_def get_closest_point_on_line_def Let_def)
qed

text \<open>
  Claim C7 at a line whose start equals its end. With the identity mapping, both end
  points at \<open>(0.5, 0.5)\<close> and the test point \<open>(10, 10)\<close>, neither end point is within 4
  units, the length of the line is zero and the division by it raises: the hit test does
  not return a part or none.
\<close>

theorem LineGraphic_test_degenerate_raises:
  "LineGraphic_test \<lparr>lg_start = (1/2, 1/2), lg_end = (1/2, 1/2)\<rparr> identity_mapping (10, 10) False
     = Inl ZeroDivisionError"
proof -
  have "\<not> sqrt ((1/2 - 10)\<^sup>2 + (1/2 - 10)\<^sup>2) < (4::real)"
  proof -
    have "(4::real) = sqrt 16" by simp
    moreover have "(16::real) \<le> (1/2 - 10)\<^sup>2 + (1/2 - 10)\<^sup>2"
      by (simp add: power2_eq_square)
    ultimately show ?thesis by (metis real_sqrt_le_iff not_less)
  qed
  then show ?thesis
    by (simp add: LineGraphic_test_def identity_mapping_def test_point_def test_line_def
        get_closest_point_on_line_def)
qed

section \<open>Symbolic.py: theorems\<close>

lemma dict_get_dict_set: "dict_get (dict_set k v d) k = v"
  by (simp add: dict_get_def dict_set_def update_conv')

text \<open>
  Claim C8. For a variable whose \<open>value_type\<close> is one of boolean, integral, real, complex
  and string and a value of that type, the writer succeeds and the reader gives the same
  value back from what the writer stored; a complex value is stored as the pair of its real
  and imaginary parts.
\<close>

theorem value_round_trip:
  assumes "cv_value_type self = Some vt" and "value_of_type vt v"
  shows "case value_writer B self key properties v of
           Inl e \<Rightarrow> False
         | Inr stored \<Rightarrow>
             value_reader B self key stored = Inr v \<and>
             (case v of
                PyComplex c \<Rightarrow> dict_get stored key = PyTuple [PyFloat (Re c), PyFloat (Im c)]
              | _ \<Rightarrow> True)"
proof (cases v)
  case (PyBool b)
  with assms show ?thesis
    by (simp add: value_writer_def value_reader_def dict_get_dict_set)
next
  case (PyInt i)
  with assms show ?thesis
    by (simp add: value_writer_def value_reader_def dict_get_dict_set)
next
  case (PyFloat r)
  with assms show ?thesis
    by (simp add: value_writer_def value_reader_def dict_get_dict_set)
next
  case (PyComplex c)
  have "complex_of_real (Re c) + complex_of_real (Im c) * \<i> = c"
    by (simp add: complex_eq_iff)
  with PyComplex assms show ?thesis
    by (simp add: value_writer_def value_reader_def dict_get_dict_set)
next
  case (PyStr s)
  with assms show ?thesis
    by (simp add: value_writer_def value_reader_def dict_get_dict_set)
qed (use assms in simp_all)

theorem value_round_trip_witness:
  "cv_value_type complex_variable = Some ''complex'' \<and>
   value_of_type ''complex'' (PyComplex (Complex 3 4)) \<and>
   value_writer sample_builtins complex_variable ''value'' [] (PyComplex (Complex 3 4)) =
     Inr [(''value'', PyTuple [PyFloat 3, PyFloat 4])] \<and>
   value_reader sample_builtins complex_variable ''value''
     [(''value'', PyTuple [PyFloat 3, PyFloat 4])] = Inr (PyComplex (Complex 3 4))"
  using value_round_trip
    [of complex_variable "''complex''" "PyComplex (Complex 3 4)" sample_builtins "''value''" "[]"]
  by (simp add: complex_variable_def ComputationVariable_init_def value_writer_def
      value_reader_def dict_set_def dict_get_def complex_eq_iff)

text \<open>A scalar variable with no specifier: setting its type to \<open>data_item\<close> clears the
  type, the control type, the default and the range, then raises at
  \<open>del specifier["uuid"]\<close>, the new dictionary \<open>{"version": 1}\<close> holding no such key.\<close>

lemma set_variable_type_scalar_to_data_item:
  assumes "cv_value_type self = Some vt" and "vt \<noteq> ''data_item''" and "cv_specifier self = None"
  shows "set_variable_type self ''data_item'' = Inl (KeyError ''uuid'', clear_scalar_fields self)"
  using assms
  by (simp add: set_variable_type_def variable_type_def data_types_def clear_scalar_fields_def
      specifier_or_new_def dict_get_def dict_del_def)

text \<open>
  Claim C5 at the variable \<open>x\<close> of type real with value 1, default 0 and range 0 to 10:
  assigning the variable type \<open>data_item\<close> raises \<open>KeyError\<close>. The variable is left with its
  type, control type, default and range cleared, its value still 1, no specifier, and the
  event not fired.
\<close>

theorem set_variable_type_data_item_raises:
  "set_variable_type sample_variable ''data_item'' =
     Inl (KeyError ''uuid'',
          \<lparr>cv_uuid = UUID 1, cv_name = Some ''x'', cv_label = Some ''x'', cv_value_type = None,
           cv_value = PyFloat 1, cv_value_default = PyNone, cv_value_min = PyNone,
           cv_value_max = PyNone, cv_specifier = None, cv_control_type = None,
           cv_cascade_delete = PyNone, cv_variable_type_changed_fired = 0\<rparr>)"
  by (simp add: set_variable_type_def sample_variable_def ComputationVariable_init_def
      variable_type_def data_types_def clear_scalar_fields_def specifier_or_new_def
      dict_get_def dict_del_def)

text \<open>After any sequence of calls an evaluation is marked in flight exactly when the last
  call was \<open>begin_evaluate\<close>.\<close>

lemma run_calls_evaluating:
  "c_evaluating (fst (run_calls self calls)) =
     (if calls = [] then c_evaluating self else last calls = BeginEvaluate)"
proof (induction calls arbitrary: self)
  case Nil
  show ?case by simp
next
  case (Cons call calls)
  show ?case
  proof (cases call)
    case BeginEvaluate
    then show ?thesis
      using Cons.IH [of "fst (begin_evaluate self)"]
      by (simp add: begin_evaluate_def split_beta Let_def)
  next
    case EndEvaluate
    then show ?thesis
      using Cons.IH [of "end_evaluate self"]
      by (simp add: end_evaluate_def)
  qed
qed

text \<open>
  Claim C9. \<open>begin_evaluate\<close> returns true exactly when no evaluation is marked in flight
  and marks one in either case; \<open>end_evaluate\<close> clears the mark. After any sequence of
  calls, \<open>begin_evaluate\<close> returns true exactly when the last call was \<open>end_evaluate\<close> (or,
  with no call before, when the computation was not evaluating). Begin, begin, end, begin
  on a new computation, or after an \<open>end_evaluate\<close>, return true, false, true, and a second
  \<open>begin_evaluate\<close> in a row returns false.
\<close>

theorem begin_end_evaluate_transaction:
  "snd (begin_evaluate self) = (\<not> c_evaluating self) \<and>
   c_evaluating (fst (begin_evaluate self)) \<and>
   \<not> c_evaluating (end_evaluate self) \<and>
   snd (begin_evaluate (fst (run_calls self calls))) =
     (if calls = [] then \<not> c_evaluating self else last calls = EndEvaluate) \<and>
   snd (run_calls (Computation_init expression)
          [BeginEvaluate, BeginEvaluate, EndEvaluate, BeginEvaluate]) = [True, False, True] \<and>
   snd (run_calls (end_evaluate self)
          [BeginEvaluate, BeginEvaluate, EndEvaluate, BeginEvaluate]) = [True, False, True] \<and>
   snd (begin_evaluate (fst (begin_evaluate self))) = False"
proof -
  have "snd (begin_evaluate (fst (run_calls self calls))) =
          (if calls = [] then \<not> c_evaluating self else last calls = EndEvaluate)"
  proof -
    have "snd (begin_evaluate (fst (run_calls self calls))) =
            (\<not> c_evaluating (fst (run_calls self calls)))"
      by (simp add: begin_evaluate_def Let_def)
    also have "\<dots> = (if calls = [] then \<not> c_evaluating self else last calls \<noteq> BeginEvaluate)"
      by (simp add: run_calls_evaluating)
    also have "\<dots> = (if calls = [] then \<not> c_evaluating self else last calls = EndEvaluate)"
      by (cases "last calls") simp_all
    finally show ?thesis .
  qed
  then show ?thesis
    by (simp add: begin_evaluate_def end_evaluate_def Computation_init_def Let_def)
qed

text \<open>
  Claim C10. When the uuid of an object specifier converts to the uuid of a variable of the
  computation and the variable found has a specifier, \<open>resolve_object_specifier\<close> returns
  none whatever the host context would resolve the specifier to: the host is not asked and
  no bound variable is made.
\<close>

theorem resolve_object_specifier_reference_variable:
  assumes "py_truth (dict_get object_specifier ''uuid'')"
    and "convert_back env (dict_get object_specifier ''uuid'') = Some u"
    and "find (\<lambda>variable. cv_uuid variable = u) (c_variables computation) = Some variable"
    and "cv_specifier variable \<noteq> None"
  shows "resolve_variable env computation object_specifier = Some variable \<and>
         resolve_object_specifier env computation context object_specifier = None"
  using assms by (simp add: resolve_object_specifier_def resolve_variable_def)

theorem resolve_object_specifier_reference_variable_witness:
  "py_truth (dict_get [(''uuid'', PyStr ''v-2'')] ''uuid'') \<and>
   convert_back sample_env (dict_get [(''uuid'', PyStr ''v-2'')] ''uuid'') = Some (UUID 2) \<and>
   find (\<lambda>variable. cv_uuid variable = UUID 2) (c_variables sample_computation)
     = Some reference_variable \<and>
   cv_specifier reference_variable \<noteq> None \<and>
   hc_resolve_object_specifier sample_context [(''uuid'', PyStr ''v-2'')]
     = Some (HostItem (PyObject ''data'')) \<and>
   resolve_object_specifier sample_env sample_computation sample_context
     [(''uuid'', PyStr ''v-2'')] = None"
  using resolve_object_specifier_reference_variable
    [of "[(''uuid'', PyStr ''v-2'')]" sample_env "UUID 2" sample_computation reference_variable
        sample_context]
  by (simp add: dict_get_def sample_env_def sample_computation_def sample_context_def
      reference_variable_def ComputationVariable_init_def Computation_init_def bind_def)

text \<open>The globals of the program do not depend on the two fields \<open>evaluate\<close> writes before
  it parses.\<close>

lemma program_globals_evaluate_fields:
  "program_globals env
     (self\<lparr>c_evaluation_count_for_test := n, c_needs_update := b\<rparr>) context
   = program_globals env self context"
proof -
  let ?self' = "self\<lparr>c_evaluation_count_for_test := n, c_needs_update := b\<rparr>"
  have rv: "resolve_variable env ?self' = resolve_variable env self"
    by (rule ext) (simp add: resolve_variable_def Let_def cong: option.case_cong)
  have ro: "resolve_object_specifier env ?self' = resolve_object_specifier env self"
    by (intro ext) (simp add: resolve_object_specifier_def rv)
  have cm: "computation_variable_map env ?self' = computation_variable_map env self"
    by (simp add: computation_variable_map_def)
  show ?thesis
    unfolding program_globals_def ro cm ..
qed

lemma assemble_code_sample:
  "assemble_code ''1/0'' = ''import uuid'' @ [newline] @ ''result = 1/0''"
  by (simp add: assemble_code_def newline_def)

lemma assemble_code_unbound_result:
  "assemble_code unbound_result_expression =
     ''import uuid'' @ [newline] @ ''x = '' @ triple_quote @ [newline] @ ''result = '' @ triple_quote"
  by (simp add: assemble_code_def newline_def unbound_result_expression_def triple_quote_def)

text \<open>
  Claim C3, as the code has it. Take an expression that is not empty in a bound
  computation, and what executing its assembled program does. When the program raises an
  instance of \<open>Exception\<close>, or completes without binding \<open>result\<close> (the \<open>KeyError\<close> of
  \<open>l["result"]\<close>), parsing returns normally and changes the computation in exactly three
  fields: the error text is \<open>Execution Error\<close>, whatever the exception was, the result is
  cleared and no parse is pending; the next \<open>evaluate\<close> returns no value and leaves the
  error text. When the program raises any object that is not an instance of \<open>Exception\<close>,
  parsing raises that object, and so does \<open>evaluate\<close> when it has to parse the
  expression.
\<close>

theorem parse_expression_execution_error:
  assumes "expression \<noteq> []"
    and "c_computation_context self = Some context"
    and "exec_code env (assemble_code expression) (program_globals env self context) = outcome"
  shows "((\<exists>e. outcome = ExecRaised e \<and> is_Exception e) \<or>
          (\<exists>l. outcome = ExecCompleted l \<and> map_of l ''result'' = None) \<longrightarrow>
            parse_expression env self (Some expression) =
              Inr (self\<lparr>c_data_and_metadata := PyNone,
                        c_error_text := Some ''Execution Error'',
                        c_needs_parse := False\<rparr>) \<and>
            evaluate env (self\<lparr>c_data_and_metadata := PyNone,
                               c_error_text := Some ''Execution Error'',
                               c_needs_parse := False\<rparr>) =
              Inr (self\<lparr>c_data_and_metadata := PyNone,
                        c_error_text := Some ''Execution Error'',
                        c_needs_parse := False,
                        c_evaluation_count_for_test := c_evaluation_count_for_test self + 1,
                        c_needs_update := False\<rparr>, PyNone)) \<and>
         (\<forall>e. outcome = ExecRaised e \<and> \<not> is_Exception e \<longrightarrow>
            parse_expression env self (Some expression) = Inl e \<and>
            (c_needs_parse self \<and> c_original_expression self = Some expression \<longrightarrow>
               evaluate env self = Inl e))"
proof (intro conjI impI allI)
  assume fails: "(\<exists>e. outcome = ExecRaised e \<and> is_Exception e) \<or>
          (\<exists>l. outcome = ExecCompleted l \<and> map_of l ''result'' = None)"
  then show "parse_expression env self (Some expression) =
              Inr (self\<lparr>c_data_and_metadata := PyNone,
                        c_error_text := Some ''Execution Error'',
                        c_needs_parse := False\<rparr>)"
  proof
    assume "\<exists>e. outcome = ExecRaised e \<and> is_Exception e"
    then obtain e where "outcome = ExecRaised e" and "is_Exception e" by blast
    with assms show ?thesis by (simp add: parse_expression_def Let_def)
  next
    assume "\<exists>l. outcome = ExecCompleted l \<and> map_of l ''result'' = None"
    then obtain l where "outcome = ExecCompleted l" and "map_of l ''result'' = None" by blast
    with assms show ?thesis by (simp add: parse_expression_def Let_def)
  qed
next
  show "evaluate env (self\<lparr>c_data_and_metadata := PyNone,
                               c_error_text := Some ''Execution Error'',
                               c_needs_parse := False\<rparr>) =
              Inr (self\<lparr>c_data_and_metadata := PyNone,
                        c_error_text := Some ''Execution Error'',
                        c_needs_parse := False,
                        c_evaluation_count_for_test := c_evaluation_count_for_test self + 1,
                        c_needs_update := False\<rparr>, PyNone)"
    by (simp add: evaluate_def Let_def)
next
  fix e
  assume e: "outcome = ExecRaised e \<and> \<not> is_Exception e"
  with assms show "parse_expression env self (Some expression) = Inl e"
    by (simp add: parse_expression_def Let_def)
next
  fix e
  assume e: "outcome = ExecRaised e \<and> \<not> is_Exception e"
    and again: "c_needs_parse self \<and> c_original_expression self = Some expression"
  let ?self' = "self\<lparr>c_evaluation_count_for_test := c_evaluation_count_for_test self + 1,
                       c_needs_update := False\<rparr>"
  have "exec_code env (assemble_code expression) (program_globals env ?self' context) = ExecRaised e"
    using e assms(3) by (simp add: program_globals_evaluate_fields)
  with assms(1,2) e have "parse_expression env ?self' (Some expression) = Inl e"
    by (simp add: parse_expression_def Let_def)
  with again show "evaluate env self = Inl e"
    by (simp add: evaluate_def Let_def)
qed

theorem parse_expression_execution_error_witness:
  "''1/0'' \<noteq> [] \<and>
   c_computation_context sample_computation = Some sample_context \<and>
   exec_code sample_env (assemble_code ''1/0'')
     (program_globals sample_env sample_computation sample_context)
     = ExecRaised (Raised True ''ZeroDivisionError: division by zero'') \<and>
   is_Exception (Raised True ''ZeroDivisionError: division by zero'') \<and>
   parse_expression sample_env sample_computation (Some ''1/0'') =
     Inr (sample_computation\<lparr>c_data_and_metadata := PyNone,
                              c_error_text := Some ''Execution Error'',
                              c_needs_parse := False\<rparr>) \<and>
   unbound_result_expression \<noteq> [] \<and>
   c_computation_context unbound_result_computation = Some sample_context \<and>
   exec_code sample_env (assemble_code unbound_result_expression)
     (program_globals sample_env unbound_result_computation sample_context)
     = ExecCompleted [(''uuid'', PyObject ''module uuid''),
                      (''x'', PyStr ([newline] @ ''result = ''))] \<and>
   map_of [(''uuid'', PyObject ''module uuid''), (''x'', PyStr ([newline] @ ''result = ''))]
     ''result'' = None \<and>
   parse_expression sample_env unbound_result_computation (Some unbound_result_expression) =
     Inr (unbound_result_computation\<lparr>c_data_and_metadata := PyNone,
                                      c_error_text := Some ''Execution Error'',
                                      c_needs_parse := False\<rparr>) \<and>
   ''exit()'' \<noteq> [] \<and>
   c_computation_context exit_computation = Some sample_context \<and>
   c_needs_parse exit_computation \<and>
   c_original_expression exit_computation = Some ''exit()'' \<and>
   exec_code sample_env (assemble_code ''exit()'')
     (program_globals sample_env exit_computation sample_context)
     = ExecRaised (Raised False ''SystemExit'') \<and>
   \<not> is_Exception (Raised False ''SystemExit'') \<and>
   parse_expression sample_env exit_computation (Some ''exit()'') = Inl (Raised False ''SystemExit'') \<and>
   evaluate sample_env exit_computation = Inl (Raised False ''SystemExit'')"
proof -
  have ctx1: "c_computation_context sample_computation = Some sample_context"
    by (simp add: sample_computation_def bind_def)
  have out1: "exec_code sample_env (assemble_code ''1/0'') g
      = ExecRaised (Raised True ''ZeroDivisionError: division by zero'')" for g
    by (simp add: sample_env_def assemble_code_sample)
  have ne2: "unbound_result_expression \<noteq> []"
    by (simp add: unbound_result_expression_def)
  have ctx2: "c_computation_context unbound_result_computation = Some sample_context"
    by (simp add: unbound_result_computation_def bind_def)
  have out2: "exec_code sample_env (assemble_code unbound_result_expression) g
      = ExecCompleted [(''uuid'', PyObject ''module uuid''),
                       (''x'', PyStr ([newline] @ ''result = ''))]" for g
    by (simp add: sample_env_def assemble_code_unbound_result newline_def triple_quote_def)
  have ctx3: "c_computation_context exit_computation = Some sample_context"
    and again3: "c_needs_parse exit_computation"
      "c_original_expression exit_computation = Some ''exit()''"
    by (simp_all add: exit_computation_def bind_def Computation_init_def)
  have out3: "exec_code sample_env (assemble_code ''exit()'') g
      = ExecRaised (Raised False ''SystemExit'')" for g
    by (simp add: sample_env_def assemble_code_def newline_def)
  note t1 = parse_expression_execution_error
      [of "''1/0''" sample_computation sample_context sample_env
          "ExecRaised (Raised True ''ZeroDivisionError: division by zero'')"]
  note t2 = parse_expression_execution_error
      [of unbound_result_expression unbound_result_computation sample_context sample_env
          "ExecCompleted [(''uuid'', PyObject ''module uuid''),
                          (''x'', PyStr ([newline] @ ''result = ''))]"]
  note t3 = parse_expression_execution_error
      [of "''exit()''" exit_computation sample_context sample_env
          "ExecRaised (Raised False ''SystemExit'')"]
  have r1: "parse_expression sample_env sample_computation (Some ''1/0'') =
     Inr (sample_computation\<lparr>c_data_and_metadata := PyNone,
                              c_error_text := Some ''Execution Error'',
                              c_needs_parse := False\<rparr>)"
    using t1 ctx1 out1 by simp
  have r2: "parse_expression sample_env unbound_result_computation (Some unbound_result_expression) =
     Inr (unbound_result_computation\<lparr>c_data_and_metadata := PyNone,
                                      c_error_text := Some ''Execution Error'',
                                      c_needs_parse := False\<rparr>)"
    using t2 ne2 ctx2 out2 by simp
  have r3: "parse_expression sample_env exit_computation (Some ''exit()'') = Inl (Raised False ''SystemExit'')
     \<and> evaluate sample_env exit_computation = Inl (Raised False ''SystemExit'')"
    using t3 ctx3 again3 out3 by simp
  from ctx1 out1 r1 ne2 ctx2 out2 r2 ctx3 again3 out3 r3 show ?thesis by simp
qed

lemma assemble_code_exit:
  "assemble_code ''exit()'' = ''import uuid'' @ [newline] @ ''result = exit()''"
  by (simp add: assemble_code_def newline_def)

text \<open>Claim C3 as stated fails for a program that raises an object that is not an instance
  of \<open>Exception\<close>: the program of the expression \<open>exit()\<close> raises \<open>SystemExit\<close>, which
  \<open>except Exception\<close> does not handle, so parsing and \<open>evaluate\<close> raise it and no error
  text is set.\<close>

theorem parse_expression_system_exit_counterexample:
  "''exit()'' \<noteq> [] \<and>
   exec_code sample_env (assemble_code ''exit()'')
     (program_globals sample_env exit_computation sample_context)
     = ExecRaised (Raised False ''SystemExit'') \<and>
   parse_expression sample_env exit_computation (Some ''exit()'') = Inl (Raised False ''SystemExit'') \<and>
   evaluate sample_env exit_computation = Inl (Raised False ''SystemExit'')"
proof -
  have raised: "exec_code sample_env (assemble_code ''exit()'') g
      = ExecRaised (Raised False ''SystemExit'')" for g
    by (simp add: sample_env_def assemble_code_exit newline_def)
  have parsed: "parse_expression sample_env exit_computation (Some ''exit()'')
      = Inl (Raised False ''SystemExit'')"
    by (simp add: parse_expression_def raised exit_computation_def bind_def)
  have "evaluate sample_env exit_computation = Inl (Raised False ''SystemExit'')"
    by (simp add: evaluate_def parse_expression_def raised exit_computation_def
        Computation_init_def bind_def)
  with raised parsed show ?thesis by simp
qed

section \<open>Operation.py: theorems\<close>

lemma module_registry_unknown:
  "build_operation (module_registry L) ''unknown-operation'' = None"
  by (simp add: build_operation_def module_registry_def register_operation_def)

text \<open>An operation item built for an identifier the registry does not hold: construction
  succeeds, the name is the translated placeholder, data, calibrations, shape and dtype
  pass through, and the intensity calibration raises.\<close>

lemma unavailable_operation_pass_through:
  assumes "build_operation operations operation_id = None"
  shows "\<exists>item. OperationItem_init L operations operation_id = Inr item \<and>
           oi_name item = PyStr (gettext L ''Unavailable Operation'') \<and>
           OperationItem_process_data L item data = Inr data \<and>
           OperationItem_get_processed_calibrations L item data_shape data_dtype source_calibrations
             = Inr source_calibrations \<and>
           OperationItem_get_processed_data_shape_and_dtype L item data_shape data_dtype
             = Inr (data_shape, data_dtype) \<and>
           OperationItem_get_processed_intensity_calibration L item data_shape data_dtype
             intensity_calibration = Inl (NameError ''source_calibrations'')"
  using assms
  by (simp add: OperationItem_init_def OperationItem_process_data_def ndarray_copy_def
      OperationItem_get_processed_calibrations_def
      OperationItem_get_processed_data_shape_and_dtype_def
      OperationItem_get_processed_intensity_calibration_def)

text \<open>
  Claim C4 at the identifier \<open>unknown-operation\<close>, which the module does not register:
  the item is constructed with no operation, and its
  \<open>get_processed_intensity_calibration\<close> raises \<open>NameError\<close> instead of returning the
  intensity calibration it was given.
\<close>

theorem unavailable_operation_intensity_calibration_raises:
  "OperationItem_init L (module_registry L) ''unknown-operation'' =
     Inr \<lparr>oi_operation = None, oi_name = PyStr (gettext L ''Unavailable Operation''),
          oi_enabled = True, oi_operation_id = ''unknown-operation'', oi_description = [],
          oi_properties = [], oi_values = []\<rparr> \<and>
   OperationItem_get_processed_intensity_calibration L
     \<lparr>oi_operation = None, oi_name = PyStr (gettext L ''Unavailable Operation''),
      oi_enabled = True, oi_operation_id = ''unknown-operation'', oi_description = [],
      oi_properties = [], oi_values = []\<rparr>
     [PyInt 2, PyInt 2] ''float64'' \<lparr>cal_origin = 0, cal_scale = 1, cal_units = ''nm''\<rparr>
     = Inl (NameError ''source_calibrations'')"
  by (simp add: OperationItem_init_def module_registry_unknown
      OperationItem_get_processed_intensity_calibration_def)

lemma Resample2dOperation_init_attributes:
  "op_class (Resample2dOperation_init L) = Resample2dOperation \<and>
   getattr L (Resample2dOperation_init L) ''height'' = Some (PyInt 0) \<and>
   getattr L (Resample2dOperation_init L) ''width'' = Some (PyInt 0)"
  by (simp add: Resample2dOperation_init_def Operation_init_def setattr_def getattr_def
      dict_set_def Let_def)

text \<open>
  Claim C6 at a new \<open>Resample2dOperation\<close> and data of shape \<open>(2, 3)\<close>. The constructor sets
  \<open>width\<close> and \<open>height\<close> to 0, so \<open>get_property\<close> finds the attributes and never returns the
  shape it is given as default: the processed shape is \<open>(0, 0)\<close> (with the colour component
  appended for colour data), not \<open>(2, 3)\<close>, and the data is handed to \<open>Image.scaled\<close> with the
  target \<open>(0, 0)\<close> instead of being returned.
\<close>

theorem resample_unset_parameters_not_identity:
  "Operation_get_processed_data_shape_and_dtype L (Resample2dOperation_init L)
     [PyInt 2, PyInt 3] ''float64''
     = Inr ([PyInt 0, PyInt 0] @
              (if Image_is_shape_and_dtype_rgba L [PyInt 2, PyInt 3] ''float64'' \<or>
                  Image_is_shape_and_dtype_rgb L [PyInt 2, PyInt 3] ''float64''
               then [PyInt 3] else []), ''float64'') \<and>
   Operation_process_data_in_place L (Resample2dOperation_init L)
     (NDArray [2, 3] ''float64'' [1, 2, 3, 4, 5, 6])
     = Image_scaled L (NDArray [2, 3] ''float64'' [1, 2, 3, 4, 5, 6]) (PyInt 0, PyInt 0) \<and>
   Operation_get_property L (Resample2dOperation_init L) ''height'' (PyInt 2) = PyInt 0"
  by (simp add: Operation_get_processed_data_shape_and_dtype_def
      Resample2dOperation_get_processed_data_shape_and_dtype_def
      Operation_process_data_in_place_def Operation_process_data_copy_def
      Resample2dOperation_process_data_copy_def Operation_get_property_def
      Resample2dOperation_init_attributes tuple_at_def shape_tuple_def ndarray_copy_def
      py_eq_int_def Let_def)

end
